theory Spec2Isabelle
  imports Complex_Main
begin

section \<open>The entanglement attempt engine of server.py\<close>

text \<open>
  The engine is \<^verbatim>\<open>run_quantum_simulation\<close> with its scoring function
  \<^verbatim>\<open>calculate_fidelity\<close>. Python floats are read as real numbers (exact
  arithmetic: rounding, infinities and NaN are not part of the model), the Python
  integer \<^verbatim>\<open>attempt\<close> is an \<open>int\<close>, and the ambient generator behind
  \<^verbatim>\<open>random.random()\<close> is an explicit stream of draws \<open>rnd\<close> together
  with the number of draws consumed so far. The functions are first given at arguments
  of the types of the docstring: \<^verbatim>\<open>noise_level\<close> is a float, here any real
  number, and \<^verbatim>\<open>purification_enabled\<close> is a bool. A noise level of another
  type is treated after them, in \<open>run_quantum_simulation_dyn\<close>.
\<close>

subsection \<open>Data\<close>

datatype status = Initializing | Sending | Purifying | Measuring | Success | Retry

text \<open>
  The message of a step is an f-string. It is kept as its template together with the
  values the template interpolates; the rendering of a float with \<^verbatim>\<open>.1f\<close>
  is not modelled.
\<close>

datatype message =
    Msg_initializing_qubits int int
  | Msg_creating_bell_pair
  | Msg_sending_qubit
  | Msg_applying_purification
  | Msg_purification_complete real
  | Msg_measuring
  | Msg_entanglement_successful real
  | Msg_fidelity_too_low real

text \<open>
  A step is a dict; the key \<^verbatim>\<open>"fidelity"\<close> is absent from some of them,
  which is \<open>None\<close> here.
\<close>

record step =
  status :: status
  progress :: real
  fidelity :: "real option"
  attempt :: int
  message :: message

record results =
  success :: bool
  result_fidelity :: real
  attempts :: int
  latency :: real
  noiseLevel :: real
  purificationEnabled :: bool

record sim_output =
  steps :: "step list"
  results :: results

datatype py_error = IndexError | TypeError | OverflowError

text \<open>The local variables of \<^verbatim>\<open>run_quantum_simulation\<close> that live across
  iterations of its loop, and the number of random draws consumed.\<close>

record loop_state =
  cur_steps :: "step list"
  cur_attempt :: int
  cur_success :: bool
  cur_draw :: nat

subsection \<open>Randomness\<close>

type_synonym draws = "nat \<Rightarrow> real"

definition random_random :: "draws \<Rightarrow> nat \<Rightarrow> real \<times> nat" where
  "random_random rnd k = (rnd k, Suc k)"

text \<open>\<^verbatim>\<open>random.random()\<close> returns a value in the half-open interval from 0 to 1.\<close>

definition valid_draws :: "draws \<Rightarrow> bool" where
  "valid_draws rnd = (\<forall>k. 0 \<le> rnd k \<and> rnd k < 1)"

definition const_draws :: "real \<Rightarrow> draws" where
  "const_draws r k = r"

subsection \<open>The code\<close>

definition threshold :: real where
  "threshold = 0.8"

definition max_attempts :: int where
  "max_attempts = 3"

definition calculate_fidelity :: "real \<Rightarrow> int \<Rightarrow> draws \<Rightarrow> nat \<Rightarrow> real \<times> nat" where
  "calculate_fidelity noise_level attempt_no rnd k =
     (let base_fidelity = 1.0 - noise_level;
          (r, k') = random_random rnd k;
          random_factor = (r * 0.2) - 0.1;
          attempt_bonus = real_of_int (attempt_no - 1) * 0.05;
          fid = base_fidelity + random_factor + attempt_bonus
      in (max 0.5 (min 1.0 fid), k'))"

text \<open>One execution of the body of the \<^verbatim>\<open>while\<close> loop.\<close>

definition loop_body :: "real \<Rightarrow> bool \<Rightarrow> draws \<Rightarrow> loop_state \<Rightarrow> loop_state" where
  "loop_body noise_level purification_enabled rnd st =
     (let att = cur_attempt st + 1;
          steps1 = cur_steps st @
            [\<lparr>status = Initializing, progress = 0.1, fidelity = None, attempt = att,
              message = Msg_initializing_qubits att max_attempts\<rparr>];
          steps2 = steps1 @
            [\<lparr>status = Initializing, progress = 0.2, fidelity = None, attempt = att,
              message = Msg_creating_bell_pair\<rparr>];
          steps3 = steps2 @
            [\<lparr>status = Sending, progress = 0.3, fidelity = None, attempt = att,
              message = Msg_sending_qubit\<rparr>];
          (fid0, k1) = calculate_fidelity noise_level att rnd (cur_draw st);
          (steps5, fid, k2) =
            (if purification_enabled \<and> fid0 < threshold then
               (let steps4 = steps3 @
                      [\<lparr>status = Purifying, progress = 0.4, fidelity = Some fid0, attempt = att,
                        message = Msg_applying_purification\<rparr>];
                    (r, k2) = random_random rnd k1;
                    fid1 = fid0 + (0.2 + r * 0.1);
                    fid2 = min fid1 1.0
                in (steps4 @
                      [\<lparr>status = Purifying, progress = 0.5, fidelity = Some fid2, attempt = att,
                        message = Msg_purification_complete fid2\<rparr>],
                    fid2, k2))
             else (steps3, fid0, k1));
          steps6 = steps5 @
            [\<lparr>status = Measuring, progress = 0.7, fidelity = Some fid, attempt = att,
              message = Msg_measuring\<rparr>]
      in if fid \<ge> threshold then
           \<lparr>cur_steps = steps6 @
              [\<lparr>status = Success, progress = 1.0, fidelity = Some fid, attempt = att,
                message = Msg_entanglement_successful fid\<rparr>],
            cur_attempt = att, cur_success = True, cur_draw = k2\<rparr>
         else
           \<lparr>cur_steps = steps6 @
              [\<lparr>status = Retry, progress = 0.9, fidelity = Some fid, attempt = att,
                message = Msg_fidelity_too_low fid\<rparr>],
            cur_attempt = att, cur_success = cur_success st, cur_draw = k2\<rparr>)"

function while_loop :: "real \<Rightarrow> bool \<Rightarrow> draws \<Rightarrow> loop_state \<Rightarrow> loop_state" where
  "while_loop noise_level purification_enabled rnd st =
     (if \<not> cur_success st \<and> cur_attempt st < max_attempts
      then while_loop noise_level purification_enabled rnd
             (loop_body noise_level purification_enabled rnd st)
      else st)"
  by pat_completeness auto
termination
  by (relation "measure (\<lambda>(n, p, r, st). nat (max_attempts - cur_attempt st))")
     (simp_all add: loop_body_def Let_def case_prod_beta)

declare while_loop.simps [simp del]

definition init_state :: loop_state where
  "init_state = \<lparr>cur_steps = [], cur_attempt = 0, cur_success = False, cur_draw = 0\<rparr>"

text \<open>
  \<^verbatim>\<open>steps[-1]\<close> raises IndexError on an empty list, and
  \<^verbatim>\<open>.get("fidelity", 0)\<close> falls back to 0 when the key is absent.
\<close>

definition run_quantum_simulation :: "real \<Rightarrow> bool \<Rightarrow> draws \<Rightarrow> py_error + sim_output" where
  "run_quantum_simulation noise_level purification_enabled rnd =
     (let st = while_loop noise_level purification_enabled rnd init_state;
          lat = real_of_int (cur_attempt st) * (1 + noise_level)
      in if cur_steps st = [] then Inl IndexError
         else Inr \<lparr>steps = cur_steps st,
                   results = \<lparr>success = cur_success st,
                     result_fidelity =
                       (case fidelity (last (cur_steps st)) of None \<Rightarrow> 0 | Some f \<Rightarrow> f),
                     attempts = cur_attempt st,
                     latency = lat,
                     noiseLevel = noise_level,
                     purificationEnabled = purification_enabled\<rparr>\<rparr>)"

subsection \<open>Arguments that are not floats\<close>

text \<open>
  Python does not check the type of \<^verbatim>\<open>noise_level\<close>. The handler
  \<^verbatim>\<open>simulate\<close> passes on whatever the JSON body holds under
  \<^verbatim>\<open>noiseLevel\<close>; of the values JSON decoding produces, the model keeps
  floats, integers, strings and null.
\<close>

datatype py_value = PyFloat real | PyInt int | PyStr string | PyNone

text \<open>
  The right operand of \<^verbatim>\<open>1.0 - noise_level\<close>, the first statement of
  \<^verbatim>\<open>calculate_fidelity\<close>. A float is used as it is. An integer is converted
  to float, which raises OverflowError when it rounds to a magnitude beyond the largest
  double, that is from \<open>2 ^ 1024 - 2 ^ 970\<close> on. A string and \<^verbatim>\<open>None\<close>
  are no operands of the subtraction, which raises TypeError.
\<close>

definition float_operand :: "py_value \<Rightarrow> py_error + real" where
  "float_operand v =
     (case v of
        PyFloat x \<Rightarrow> Inr x
      | PyInt n \<Rightarrow> if \<bar>n\<bar> < 2 ^ 1024 - 2 ^ 970 then Inr (real_of_int n) else Inl OverflowError
      | PyStr s \<Rightarrow> Inl TypeError
      | PyNone \<Rightarrow> Inl TypeError)"

text \<open>
  \<^verbatim>\<open>run_quantum_simulation\<close> at an argument of any of these types. The loop
  is entered, since \<^verbatim>\<open>attempt\<close> is 0 and \<^verbatim>\<open>success\<close> is false, and
  the first use of \<^verbatim>\<open>noise_level\<close> is the subtraction in the call of
  \<^verbatim>\<open>calculate_fidelity\<close> of attempt 1. When it raises, the exception leaves
  \<^verbatim>\<open>run_quantum_simulation\<close>, which catches nothing, and the steps
  appended so far are lost with it. When it does not, the same subtraction in later
  attempts and \<^verbatim>\<open>1 + noise_level\<close> of the latency do not raise either, and
  the call computes with the number that the value denotes.
\<close>

definition run_quantum_simulation_dyn :: "py_value \<Rightarrow> bool \<Rightarrow> draws \<Rightarrow> py_error + sim_output" where
  "run_quantum_simulation_dyn noise_level purification_enabled rnd =
     (case float_operand noise_level of
        Inl e \<Rightarrow> Inl e
      | Inr x \<Rightarrow> run_quantum_simulation x purification_enabled rnd)"

subsection \<open>Observations on a run\<close>

text \<open>The state of the loop after \<open>k\<close> executions of its body, which is the state in
  which attempt \<open>k + 1\<close> starts.\<close>

definition state_after :: "real \<Rightarrow> bool \<Rightarrow> draws \<Rightarrow> nat \<Rightarrow> loop_state" where
  "state_after noise_level purification_enabled rnd k =
     (loop_body noise_level purification_enabled rnd ^^ k) init_state"

text \<open>The value \<^verbatim>\<open>calculate_fidelity\<close> returns in attempt \<open>a\<close> of a run.\<close>

definition raw_fidelity :: "real \<Rightarrow> bool \<Rightarrow> draws \<Rightarrow> int \<Rightarrow> real" where
  "raw_fidelity noise_level purification_enabled rnd a =
     fst (calculate_fidelity noise_level a rnd
            (cur_draw (state_after noise_level purification_enabled rnd (nat (a - 1)))))"

definition steps_of_attempt :: "int \<Rightarrow> step list \<Rightarrow> step list" where
  "steps_of_attempt a xs = filter (\<lambda>s. attempt s = a) xs"

definition purifying_steps :: "step list \<Rightarrow> step list" where
  "purifying_steps xs = filter (\<lambda>s. status s = Purifying) xs"

text \<open>The steps one execution of the loop body appends.\<close>

definition new_steps :: "real \<Rightarrow> bool \<Rightarrow> draws \<Rightarrow> loop_state \<Rightarrow> step list" where
  "new_steps noise_level purification_enabled rnd st =
     drop (length (cur_steps st)) (cur_steps (loop_body noise_level purification_enabled rnd st))"

subsection \<open>One execution of the loop body\<close>

lemma calculate_fidelity_draw: "snd (calculate_fidelity n a rnd k) = Suc k"
  by (simp add: calculate_fidelity_def random_random_def Let_def)

lemma calculate_fidelity_range:
  "0.5 \<le> fst (calculate_fidelity n a rnd k)" "fst (calculate_fidelity n a rnd k) \<le> 1"
  by (simp_all add: calculate_fidelity_def random_random_def Let_def)

lemma calculate_fidelity_noise_one:
  assumes "rnd k < 1" and "a \<le> 3"
  shows "fst (calculate_fidelity 1 a rnd k) = 0.5"
proof -
  define x where "x = 1.0 - 1 + ((rnd k * 0.2) - 0.1) + real_of_int (a - 1) * 0.05"
  have a3: "real_of_int a \<le> 3" using assms(2) by simp
  have xe: "x = rnd k / 5 - 1 / 10 + (real_of_int a - 1) / 20" by (simp add: x_def)
  have "x \<le> 0.5" unfolding xe using a3 assms(1) by argo
  then have "max 0.5 (min 1.0 x) = 0.5" by simp
  moreover have "fst (calculate_fidelity 1 a rnd k) = max 0.5 (min 1.0 x)"
    unfolding x_def by (simp add: calculate_fidelity_def random_random_def Let_def)
  ultimately show ?thesis by simp
qed

lemma new_steps_eq:
  "new_steps n p rnd st =
     (let att = cur_attempt st + 1;
          raw = fst (calculate_fidelity n att rnd (cur_draw st));
          pur = (p \<and> raw < threshold);
          fid = (if pur then min (raw + (0.2 + rnd (Suc (cur_draw st)) * 0.1)) 1 else raw)
      in [\<lparr>status = Initializing, progress = 0.1, fidelity = None, attempt = att,
              message = Msg_initializing_qubits att max_attempts\<rparr>,
          \<lparr>status = Initializing, progress = 0.2, fidelity = None, attempt = att,
              message = Msg_creating_bell_pair\<rparr>,
          \<lparr>status = Sending, progress = 0.3, fidelity = None, attempt = att,
              message = Msg_sending_qubit\<rparr>] @
         (if pur then
            [\<lparr>status = Purifying, progress = 0.4, fidelity = Some raw, attempt = att,
                        message = Msg_applying_purification\<rparr>,
             \<lparr>status = Purifying, progress = 0.5, fidelity = Some fid, attempt = att,
                        message = Msg_purification_complete fid\<rparr>]
          else []) @
         [\<lparr>status = Measuring, progress = 0.7, fidelity = Some fid, attempt = att,
              message = Msg_measuring\<rparr>,
          (if fid \<ge> threshold then
             \<lparr>status = Success, progress = 1.0, fidelity = Some fid, attempt = att,
                message = Msg_entanglement_successful fid\<rparr>
           else
             \<lparr>status = Retry, progress = 0.9, fidelity = Some fid, attempt = att,
                message = Msg_fidelity_too_low fid\<rparr>)])"
  by (simp add: new_steps_def loop_body_def random_random_def Let_def case_prod_beta
      calculate_fidelity_draw)

lemma cur_steps_loop_body:
  "cur_steps (loop_body n p rnd st) = cur_steps st @ new_steps n p rnd st"
  by (simp add: new_steps_def loop_body_def random_random_def Let_def case_prod_beta)

lemma cur_attempt_loop_body: "cur_attempt (loop_body n p rnd st) = cur_attempt st + 1"
  by (simp add: loop_body_def Let_def case_prod_beta)

lemma cur_success_loop_body:
  "cur_success (loop_body n p rnd st) =
     (cur_success st \<or>
      (\<exists>f. fidelity (last (new_steps n p rnd st)) = Some f \<and> threshold \<le> f))"
  by (simp add: new_steps_def loop_body_def random_random_def Let_def case_prod_beta)

lemma new_steps_nonempty: "new_steps n p rnd st \<noteq> []"
  by (simp add: new_steps_eq Let_def)

lemma new_steps_length: "length (new_steps n p rnd st) \<le> 7"
  by (simp add: new_steps_eq Let_def)

lemma new_steps_attempt:
  "s \<in> set (new_steps n p rnd st) \<Longrightarrow> attempt s = cur_attempt st + 1"
  by (auto simp add: new_steps_eq Let_def split: if_splits)

lemma new_steps_fidelity_field:
  "s \<in> set (new_steps n p rnd st) \<Longrightarrow>
     (fidelity s \<noteq> None) = (status s \<in> {Purifying, Measuring, Success, Retry})"
  by (auto simp add: new_steps_eq Let_def split: if_splits)

lemma new_steps_last:
  "\<exists>f. fidelity (last (new_steps n p rnd st)) = Some f \<and>
     status (last (new_steps n p rnd st)) = (if threshold \<le> f then Success else Retry)"
  by (simp add: new_steps_eq Let_def)

lemma new_steps_last_fidelity:
  "fidelity (last (new_steps n p rnd st)) =
     Some (let raw = fst (calculate_fidelity n (cur_attempt st + 1) rnd (cur_draw st)) in
           if p \<and> raw < threshold
           then min (raw + (0.2 + rnd (Suc (cur_draw st)) * 0.1)) 1 else raw)"
  by (simp add: new_steps_eq Let_def)

lemma new_steps_last_range:
  assumes "0 \<le> rnd (Suc (cur_draw st))"
  shows "\<exists>f. fidelity (last (new_steps n p rnd st)) = Some f \<and> 0.5 \<le> f \<and> f \<le> 1"
  using assms calculate_fidelity_range[of n "cur_attempt st + 1" rnd "cur_draw st"]
  by (auto simp add: new_steps_eq Let_def min_def)

lemma new_steps_purifying:
  "map (\<lambda>s. (progress s, fidelity s)) (purifying_steps (new_steps n p rnd st)) =
     (let raw = fst (calculate_fidelity n (cur_attempt st + 1) rnd (cur_draw st)) in
      if p \<and> raw < threshold
      then [(0.4, Some raw), (0.5, Some (min (raw + (0.2 + rnd (Suc (cur_draw st)) * 0.1)) 1))]
      else [])"
  by (simp add: new_steps_eq purifying_steps_def Let_def)

lemma new_steps_status_order:
  "map status (new_steps n p rnd st) =
     [Initializing, Initializing, Sending] @
     (if p \<and> fst (calculate_fidelity n (cur_attempt st + 1) rnd (cur_draw st)) < threshold
      then [Purifying, Purifying] else []) @
     [Measuring, status (last (new_steps n p rnd st))]"
  by (simp add: new_steps_eq Let_def)

lemma new_steps_field_order:
  "map (\<lambda>s. fidelity s = None) (new_steps n p rnd st) =
     [True, True, True] @ replicate (length (new_steps n p rnd st) - 3) False"
  by (simp add: new_steps_eq Let_def)

lemma new_steps_last_status:
  "status (last (new_steps n p rnd st)) = Success \<or>
   status (last (new_steps n p rnd st)) = Retry"
  by (simp add: new_steps_eq Let_def)

subsection \<open>The loop as an iteration of its body\<close>

lemma while_loop_funpow:
  "\<exists>k. while_loop n p rnd st = (loop_body n p rnd ^^ k) st \<and>
       (\<forall>j<k. \<not> cur_success ((loop_body n p rnd ^^ j) st) \<and>
              cur_attempt ((loop_body n p rnd ^^ j) st) < max_attempts) \<and>
       (cur_success ((loop_body n p rnd ^^ k) st) \<or>
        \<not> cur_attempt ((loop_body n p rnd ^^ k) st) < max_attempts)"
proof (induction n p rnd st rule: while_loop.induct)
  case (1 n p rnd st)
  show ?case
  proof (cases "\<not> cur_success st \<and> cur_attempt st < max_attempts")
    case True
    from 1[OF True] obtain k where
      k: "while_loop n p rnd (loop_body n p rnd st) = (loop_body n p rnd ^^ k) (loop_body n p rnd st)"
         "\<forall>j<k. \<not> cur_success ((loop_body n p rnd ^^ j) (loop_body n p rnd st)) \<and>
              cur_attempt ((loop_body n p rnd ^^ j) (loop_body n p rnd st)) < max_attempts"
         "cur_success ((loop_body n p rnd ^^ k) (loop_body n p rnd st)) \<or>
          \<not> cur_attempt ((loop_body n p rnd ^^ k) (loop_body n p rnd st)) < max_attempts"
      by blast
    have unfold: "while_loop n p rnd st = while_loop n p rnd (loop_body n p rnd st)"
      using True by (subst while_loop.simps) simp
    have a: "while_loop n p rnd st = (loop_body n p rnd ^^ Suc k) st"
      using unfold k(1) by (simp add: funpow_swap1)
    have b: "\<not> cur_success ((loop_body n p rnd ^^ j) st) \<and>
             cur_attempt ((loop_body n p rnd ^^ j) st) < max_attempts" if "j < Suc k" for j
    proof (cases j)
      case 0
      then show ?thesis using True by simp
    next
      case (Suc i)
      then have "i < k" using that by simp
      then show ?thesis using k(2) Suc by (simp add: funpow_swap1)
    qed
    have c: "cur_success ((loop_body n p rnd ^^ Suc k) st) \<or>
             \<not> cur_attempt ((loop_body n p rnd ^^ Suc k) st) < max_attempts"
      using k(3) by (simp add: funpow_swap1)
    from a b c show ?thesis by blast
  next
    case False
    then have "while_loop n p rnd st = (loop_body n p rnd ^^ 0) st"
      by (subst while_loop.simps) auto
    moreover have "cur_success ((loop_body n p rnd ^^ 0) st) \<or>
        \<not> cur_attempt ((loop_body n p rnd ^^ 0) st) < max_attempts"
      using False by auto
    ultimately show ?thesis by blast
  qed
qed

lemma state_after_Suc:
  "state_after n p rnd (Suc k) = loop_body n p rnd (state_after n p rnd k)"
  by (simp add: state_after_def)

lemma state_after_0: "state_after n p rnd 0 = init_state"
  by (simp add: state_after_def)

lemma cur_attempt_state_after: "cur_attempt (state_after n p rnd k) = int k"
  by (induction k) (simp_all add: state_after_0 state_after_Suc cur_attempt_loop_body init_state_def)

lemma cur_steps_state_after_Suc:
  "cur_steps (state_after n p rnd (Suc k)) =
     cur_steps (state_after n p rnd k) @ new_steps n p rnd (state_after n p rnd k)"
  by (simp add: state_after_Suc cur_steps_loop_body)

lemma last_cur_steps_state_after:
  "last (cur_steps (state_after n p rnd (Suc k))) = last (new_steps n p rnd (state_after n p rnd k))"
  by (simp add: cur_steps_state_after_Suc new_steps_nonempty)

lemma cur_success_state_after_Suc:
  "cur_success (state_after n p rnd (Suc k)) =
     (cur_success (state_after n p rnd k) \<or>
      (\<exists>f. fidelity (last (new_steps n p rnd (state_after n p rnd k))) = Some f \<and> threshold \<le> f))"
  by (simp add: state_after_Suc cur_success_loop_body)

lemma state_after_steps_attempt:
  "s \<in> set (cur_steps (state_after n p rnd k)) \<Longrightarrow> 1 \<le> attempt s \<and> attempt s \<le> int k"
proof (induction k)
  case 0
  then show ?case by (simp add: state_after_0 init_state_def)
next
  case (Suc k)
  then show ?case
    using new_steps_attempt[of s n p rnd "state_after n p rnd k"]
    by (auto simp add: cur_steps_state_after_Suc cur_attempt_state_after)
qed

lemma state_after_length: "length (cur_steps (state_after n p rnd k)) \<le> 7 * k"
proof (induction k)
  case 0
  then show ?case by (simp add: state_after_0 init_state_def)
next
  case (Suc k)
  then show ?case
    using new_steps_length[of n p rnd "state_after n p rnd k"]
    by (simp add: cur_steps_state_after_Suc)
qed

lemma state_after_fidelity_field:
  "s \<in> set (cur_steps (state_after n p rnd k)) \<Longrightarrow>
     (fidelity s \<noteq> None) = (status s \<in> {Purifying, Measuring, Success, Retry})"
proof (induction k)
  case 0
  then show ?case by (simp add: state_after_0 init_state_def)
next
  case (Suc k)
  then show ?case
    using new_steps_fidelity_field[of s n p rnd "state_after n p rnd k"]
    by (auto simp add: cur_steps_state_after_Suc)
qed

lemma state_after_no_purifying:
  "\<not> p \<Longrightarrow> purifying_steps (cur_steps (state_after n p rnd k)) = []"
proof (induction k)
  case 0
  then show ?case by (simp add: state_after_0 init_state_def purifying_steps_def)
next
  case (Suc k)
  have "purifying_steps (new_steps n p rnd (state_after n p rnd k)) = []"
    using new_steps_purifying[of n p rnd "state_after n p rnd k"] Suc.prems
    by (simp add: Let_def)
  then show ?case
    using Suc by (simp add: cur_steps_state_after_Suc purifying_steps_def)
qed

lemma steps_of_attempt_state_after:
  "j < k \<Longrightarrow> steps_of_attempt (int (Suc j)) (cur_steps (state_after n p rnd k)) =
     new_steps n p rnd (state_after n p rnd j)"
proof (induction k)
  case 0
  then show ?case by simp
next
  case (Suc k)
  have new: "\<forall>s \<in> set (new_steps n p rnd (state_after n p rnd k)). attempt s = int (Suc k)"
    using new_steps_attempt[of _ n p rnd "state_after n p rnd k"]
    by (simp add: cur_attempt_state_after)
  have old: "\<forall>s \<in> set (cur_steps (state_after n p rnd k)). attempt s \<le> int k"
    using state_after_steps_attempt[of _ n p rnd k] by blast
  show ?case
  proof (cases "j = k")
    case True
    have "filter (\<lambda>s. attempt s = int (Suc k)) (cur_steps (state_after n p rnd k)) = []"
      using old by (auto simp add: filter_empty_conv)
    moreover have "filter (\<lambda>s. attempt s = int (Suc k)) (new_steps n p rnd (state_after n p rnd k)) =
        new_steps n p rnd (state_after n p rnd k)"
      using new by (simp add: filter_id_conv)
    ultimately show ?thesis
      using True by (simp add: steps_of_attempt_def cur_steps_state_after_Suc)
  next
    case False
    then have jk: "j < k" using Suc.prems by simp
    have "filter (\<lambda>s. attempt s = int (Suc j)) (new_steps n p rnd (state_after n p rnd k)) = []"
      using new jk by (auto simp add: filter_empty_conv)
    then show ?thesis
      using Suc.IH[OF jk] by (simp add: steps_of_attempt_def cur_steps_state_after_Suc)
  qed
qed

lemma steps_of_attempt_cases:
  "steps_of_attempt a (cur_steps (state_after n p rnd K)) =
     (if 1 \<le> a \<and> a \<le> int K then new_steps n p rnd (state_after n p rnd (nat (a - 1))) else [])"
proof (cases "1 \<le> a \<and> a \<le> int K")
  case True
  then have j: "nat (a - 1) < K" and eq: "int (Suc (nat (a - 1))) = a" by auto
  have "steps_of_attempt (int (Suc (nat (a - 1)))) (cur_steps (state_after n p rnd K)) =
      new_steps n p rnd (state_after n p rnd (nat (a - 1)))"
    using j by (rule steps_of_attempt_state_after)
  then show ?thesis using True unfolding eq by simp
next
  case False
  then have "filter (\<lambda>s. attempt s = a) (cur_steps (state_after n p rnd K)) = []"
    using state_after_steps_attempt[of _ n p rnd K] by (auto simp add: filter_empty_conv)
  then show ?thesis using False by (auto simp add: steps_of_attempt_def)
qed

lemma noise_one_no_success:
  assumes "valid_draws rnd"
  shows "k \<le> 3 \<Longrightarrow> \<not> cur_success (state_after 1 False rnd k)"
proof (induction k)
  case 0
  then show ?case by (simp add: state_after_0 init_state_def)
next
  case (Suc k)
  have "rnd (cur_draw (state_after 1 False rnd k)) < 1"
    using assms by (simp add: valid_draws_def)
  moreover have "cur_attempt (state_after 1 False rnd k) + 1 \<le> 3"
    using Suc.prems by (simp add: cur_attempt_state_after)
  ultimately have "fst (calculate_fidelity 1 (cur_attempt (state_after 1 False rnd k) + 1) rnd
      (cur_draw (state_after 1 False rnd k))) = 0.5"
    by (rule calculate_fidelity_noise_one)
  then have "fidelity (last (new_steps 1 False rnd (state_after 1 False rnd k))) = Some 0.5"
    by (simp add: new_steps_last_fidelity)
  then show ?case
    using Suc by (simp add: cur_success_state_after_Suc threshold_def)
qed

subsection \<open>The shape of a run\<close>

lemma run_shape:
  obtains K where "1 \<le> K" and "K \<le> 3"
    and "while_loop n p rnd init_state = state_after n p rnd K"
    and "\<And>j. j < K \<Longrightarrow> \<not> cur_success (state_after n p rnd j)"
    and "cur_success (state_after n p rnd K) \<or> K = 3"
    and "run_quantum_simulation n p rnd =
           Inr \<lparr>steps = cur_steps (state_after n p rnd K),
                results = \<lparr>success = cur_success (state_after n p rnd K),
                  result_fidelity =
                    (case fidelity (last (cur_steps (state_after n p rnd K))) of
                       None \<Rightarrow> 0 | Some f \<Rightarrow> f),
                  attempts = int K,
                  latency = real_of_int (int K) * (1 + n),
                  noiseLevel = n,
                  purificationEnabled = p\<rparr>\<rparr>"
proof -
  from while_loop_funpow[of n p rnd init_state] obtain K where
    K: "while_loop n p rnd init_state = state_after n p rnd K"
       "\<forall>j<K. \<not> cur_success (state_after n p rnd j) \<and>
              cur_attempt (state_after n p rnd j) < max_attempts"
       "cur_success (state_after n p rnd K) \<or>
        \<not> cur_attempt (state_after n p rnd K) < max_attempts"
    unfolding state_after_def by blast
  have le: "K \<le> 3"
  proof (rule ccontr)
    assume "\<not> K \<le> 3"
    then have "3 < K" by simp
    with K(2) have "cur_attempt (state_after n p rnd 3) < max_attempts" by blast
    then show False by (simp add: cur_attempt_state_after max_attempts_def)
  qed
  have ge: "1 \<le> K"
  proof (rule ccontr)
    assume "\<not> 1 \<le> K"
    then have "K = 0" by simp
    with K(3) show False
      by (simp add: state_after_0 init_state_def max_attempts_def)
  qed
  have stop: "cur_success (state_after n p rnd K) \<or> K = 3"
    using K(3) le by (auto simp add: cur_attempt_state_after max_attempts_def)
  obtain k where k: "K = Suc k" using ge by (cases K) auto
  have ne: "cur_steps (state_after n p rnd K) \<noteq> []"
    by (simp add: k cur_steps_state_after_Suc new_steps_nonempty)
  have run: "run_quantum_simulation n p rnd =
           Inr \<lparr>steps = cur_steps (state_after n p rnd K),
                results = \<lparr>success = cur_success (state_after n p rnd K),
                  result_fidelity =
                    (case fidelity (last (cur_steps (state_after n p rnd K))) of
                       None \<Rightarrow> 0 | Some f \<Rightarrow> f),
                  attempts = int K,
                  latency = real_of_int (int K) * (1 + n),
                  noiseLevel = n,
                  purificationEnabled = p\<rparr>\<rparr>"
    using ne by (simp add: run_quantum_simulation_def K(1) Let_def cur_attempt_state_after)
  show thesis
    using that[OF ge le K(1) _ stop run] K(2) by blast
qed

lemma run_fields:
  obtains K out where "1 \<le> K" and "K \<le> 3"
    and "while_loop n p rnd init_state = state_after n p rnd K"
    and "\<And>j. j < K \<Longrightarrow> \<not> cur_success (state_after n p rnd j)"
    and "cur_success (state_after n p rnd K) \<or> K = 3"
    and "run_quantum_simulation n p rnd = Inr out"
    and "steps out = cur_steps (state_after n p rnd K)"
    and "success (results out) = cur_success (state_after n p rnd K)"
    and "result_fidelity (results out) =
           (case fidelity (last (steps out)) of None \<Rightarrow> 0 | Some f \<Rightarrow> f)"
    and "attempts (results out) = int K"
    and "latency (results out) = real_of_int (int K) * (1 + n)"
proof -
  obtain K where K: "1 \<le> K" "K \<le> 3"
    "while_loop n p rnd init_state = state_after n p rnd K"
    "\<And>j. j < K \<Longrightarrow> \<not> cur_success (state_after n p rnd j)"
    "cur_success (state_after n p rnd K) \<or> K = 3"
    and run: "run_quantum_simulation n p rnd =
           Inr \<lparr>steps = cur_steps (state_after n p rnd K),
                results = \<lparr>success = cur_success (state_after n p rnd K),
                  result_fidelity =
                    (case fidelity (last (cur_steps (state_after n p rnd K))) of
                       None \<Rightarrow> 0 | Some f \<Rightarrow> f),
                  attempts = int K,
                  latency = real_of_int (int K) * (1 + n),
                  noiseLevel = n,
                  purificationEnabled = p\<rparr>\<rparr>"
    by (rule run_shape[of n p rnd]) blast
  show thesis
    by (rule that[OF K run]) simp_all
qed

subsection \<open>Concrete runs\<close>

lemmas run_eval = run_quantum_simulation_def while_loop.simps init_state_def loop_body_def
  calculate_fidelity_def random_random_def const_draws_def threshold_def max_attempts_def Let_def

lemma valid_const_draws_half: "valid_draws (const_draws (1/2))"
  by (simp add: valid_draws_def const_draws_def)

lemma map_sum_Inr_D: "map_sum id f x = Inr y \<Longrightarrow> \<not> isl x \<and> f (projr x) = y"
  by (cases x) auto

lemma run_noise_1_plain_success:
  "map_sum id (success \<circ> results) (run_quantum_simulation 1 False (const_draws (1/2))) = Inr False"
  by (simp add: run_eval)

lemma run_noise_0_plain_success:
  "map_sum id (success \<circ> results) (run_quantum_simulation 0 False (const_draws (1/2))) = Inr True"
  by (simp add: run_eval)

lemma run_noise_1_plain_summary:
  "map_sum id (\<lambda>out. (attempts (results out), length (steps out)))
     (run_quantum_simulation 1 False (const_draws (1/2))) = Inr (3, 15)"
  by (simp add: run_eval)

lemma run_noise_1_purified_summary:
  "map_sum id (\<lambda>out. (attempts (results out), result_fidelity (results out),
       latency (results out), length (steps out)))
     (run_quantum_simulation 1 True (const_draws (1/2))) = Inr (3, 3/4, 6, 21)"
  by (simp add: run_eval)

lemma run_noise_1_purified_first_steps:
  "map_sum id (\<lambda>out. map (\<lambda>s. (status s, attempt s, fidelity s)) (take 6 (steps out)))
     (run_quantum_simulation 1 True (const_draws (1/2))) =
   Inr [(Initializing, 1, None), (Initializing, 1, None), (Sending, 1, None),
        (Purifying, 1, Some (1/2)), (Purifying, 1, Some (3/4)), (Measuring, 1, Some (3/4))]"
  by (simp add: run_eval)

lemma run_noise_1_purified_count:
  "map_sum id (\<lambda>out. length (purifying_steps (steps_of_attempt 1 (steps out))))
     (run_quantum_simulation 1 True (const_draws (1/2))) = Inr 2"
  by (simp add: run_eval purifying_steps_def steps_of_attempt_def)

lemma raw_fidelity_noise_1_first:
  "raw_fidelity 1 True (const_draws (1/2)) 1 = 1/2"
  by (simp add: raw_fidelity_def state_after_def calculate_fidelity_def random_random_def
      const_draws_def Let_def)

lemma run_noise_1_purified_attempt_1:
  "map_sum id (\<lambda>out. map status (steps_of_attempt 1 (steps out)))
     (run_quantum_simulation 1 True (const_draws (1/2))) =
   Inr [Initializing, Initializing, Sending, Purifying, Purifying, Measuring, Retry]"
  by (simp add: run_eval steps_of_attempt_def)

lemma run_noise_5_purified_summary:
  "map_sum id (\<lambda>out. (attempts (results out), success (results out)))
     (run_quantum_simulation 5 True (const_draws (1/2))) = Inr (3, False)"
  by (simp add: run_eval)

section \<open>Properties of a run\<close>

text \<open>
  Claim C1. For every noise level, purification setting and stream of draws, the run
  returns a result whose \<open>success\<close> field is true if and only if the final step of
  the trace has status \<open>Success\<close> and carries a fidelity of at least 0.8; when
  \<open>success\<close> is false the final step has status \<open>Retry\<close>.
\<close>

theorem success_iff_final_step:
  "\<exists>out. run_quantum_simulation noise_level purification_enabled rnd = Inr out \<and>
     steps out \<noteq> [] \<and>
     (success (results out) \<longleftrightarrow>
        status (last (steps out)) = Success \<and>
        (\<exists>f. fidelity (last (steps out)) = Some f \<and> 0.8 \<le> f)) \<and>
     (\<not> success (results out) \<longrightarrow> status (last (steps out)) = Retry)"
proof -
  obtain K where K: "1 \<le> K"
    "\<And>j. j < K \<Longrightarrow> \<not> cur_success (state_after noise_level purification_enabled rnd j)"
    and run: "run_quantum_simulation noise_level purification_enabled rnd =
           Inr \<lparr>steps = cur_steps (state_after noise_level purification_enabled rnd K),
                results = \<lparr>success = cur_success (state_after noise_level purification_enabled rnd K),
                  result_fidelity =
                    (case fidelity (last (cur_steps (state_after noise_level purification_enabled rnd K))) of
                       None \<Rightarrow> 0 | Some f \<Rightarrow> f),
                  attempts = int K,
                  latency = real_of_int (int K) * (1 + noise_level),
                  noiseLevel = noise_level,
                  purificationEnabled = purification_enabled\<rparr>\<rparr>"
    by (rule run_shape[of noise_level purification_enabled rnd]) blast
  obtain k where k: "K = Suc k" using K(1) by (cases K) auto
  let ?st = "state_after noise_level purification_enabled rnd k"
  let ?new = "new_steps noise_level purification_enabled rnd ?st"
  have before: "\<not> cur_success ?st" using K(2)[of k] k by simp
  obtain f where f: "fidelity (last ?new) = Some f"
    "status (last ?new) = (if threshold \<le> f then Success else Retry)"
    using new_steps_last[of noise_level purification_enabled rnd ?st] by blast
  have succ: "cur_success (state_after noise_level purification_enabled rnd K) = (threshold \<le> f)"
    using before f(1) by (simp add: k cur_success_state_after_Suc)
  have last: "last (cur_steps (state_after noise_level purification_enabled rnd K)) = last ?new"
    by (simp add: k last_cur_steps_state_after)
  have ne: "cur_steps (state_after noise_level purification_enabled rnd K) \<noteq> []"
    by (simp add: k cur_steps_state_after_Suc new_steps_nonempty)
  show ?thesis
    using succ last ne f by (simp add: run threshold_def)
qed

theorem success_iff_final_step_witness:
  "(\<exists>out. run_quantum_simulation 1 False (const_draws (1/2)) = Inr out \<and>
      \<not> success (results out) \<and> status (last (steps out)) = Retry) \<and>
   (\<exists>out. run_quantum_simulation 0 False (const_draws (1/2)) = Inr out \<and>
      success (results out) \<and> status (last (steps out)) = Success \<and>
      (\<exists>f. fidelity (last (steps out)) = Some f \<and> 0.8 \<le> f))"
proof
  from success_iff_final_step[of 1 False "const_draws (1/2)"] obtain out where
    out: "run_quantum_simulation 1 False (const_draws (1/2)) = Inr out"
      "\<not> success (results out) \<longrightarrow> status (last (steps out)) = Retry"
    by blast
  have "\<not> success (results out)"
    using run_noise_1_plain_success by (simp add: out(1))
  with out show "\<exists>out. run_quantum_simulation 1 False (const_draws (1/2)) = Inr out \<and>
      \<not> success (results out) \<and> status (last (steps out)) = Retry"
    by blast
next
  from success_iff_final_step[of 0 False "const_draws (1/2)"] obtain out where
    out: "run_quantum_simulation 0 False (const_draws (1/2)) = Inr out"
      "success (results out) \<longleftrightarrow>
        status (last (steps out)) = Success \<and>
        (\<exists>f. fidelity (last (steps out)) = Some f \<and> 0.8 \<le> f)"
    by blast
  have "success (results out)"
    using run_noise_0_plain_success by (simp add: out(1))
  with out show "\<exists>out. run_quantum_simulation 0 False (const_draws (1/2)) = Inr out \<and>
      success (results out) \<and> status (last (steps out)) = Success \<and>
      (\<exists>f. fidelity (last (steps out)) = Some f \<and> 0.8 \<le> f)"
    by blast
qed

text \<open>
  Claim C2. For every noise level (so for every one between 0 and 1), both purification
  settings and every stream of draws, the run terminates: its loop is the \<open>k\<close>-fold
  iteration of the loop body for some \<open>k\<close> of at most 3, the run returns a result, and
  the \<open>attempts\<close> field of the result is that \<open>k\<close>, an integer from 1 to 3.
\<close>

theorem run_terminates_within_three_attempts:
  "\<exists>k out. while_loop noise_level purification_enabled rnd init_state =
              (loop_body noise_level purification_enabled rnd ^^ k) init_state \<and>
     k \<le> 3 \<and>
     run_quantum_simulation noise_level purification_enabled rnd = Inr out \<and>
     attempts (results out) = int k \<and>
     1 \<le> attempts (results out) \<and> attempts (results out) \<le> 3"
proof -
  obtain K out where "1 \<le> K" "K \<le> 3"
    "while_loop noise_level purification_enabled rnd init_state =
       state_after noise_level purification_enabled rnd K"
    "run_quantum_simulation noise_level purification_enabled rnd = Inr out"
    "attempts (results out) = int K"
    by (rule run_fields[of noise_level purification_enabled rnd]) blast
  then show ?thesis
    unfolding state_after_def by (intro exI[of _ K] exI[of _ out]) simp
qed

theorem run_terminates_within_three_attempts_witness:
  "\<exists>k out. while_loop 1 True (const_draws (1/2)) init_state =
              (loop_body 1 True (const_draws (1/2)) ^^ k) init_state \<and>
     k = 3 \<and> run_quantum_simulation 1 True (const_draws (1/2)) = Inr out \<and>
     attempts (results out) = 3"
proof -
  from run_terminates_within_three_attempts[of 1 True "const_draws (1/2)"]
  obtain k out where
    k: "while_loop 1 True (const_draws (1/2)) init_state =
              (loop_body 1 True (const_draws (1/2)) ^^ k) init_state"
      "run_quantum_simulation 1 True (const_draws (1/2)) = Inr out"
      "attempts (results out) = int k"
    by blast
  have "attempts (results out) = 3"
    using run_noise_1_purified_summary by (simp add: k(2))
  with k show ?thesis by auto
qed

text \<open>
  Claim C3. For every input and every stream of draws from the unit interval, the
  \<open>fidelity\<close> of the result lies between 0.5 and 1. The fallback 0 is not reached:
  the trace is not empty, its last step has status \<open>Success\<close> or \<open>Retry\<close>, and
  that step carries the fidelity that the result reports.
\<close>

theorem result_fidelity_in_range:
  assumes "valid_draws rnd"
  shows "\<exists>out. run_quantum_simulation noise_level purification_enabled rnd = Inr out \<and>
     0.5 \<le> result_fidelity (results out) \<and> result_fidelity (results out) \<le> 1 \<and>
     steps out \<noteq> [] \<and>
     (status (last (steps out)) = Success \<or> status (last (steps out)) = Retry) \<and>
     fidelity (last (steps out)) = Some (result_fidelity (results out))"
proof -
  obtain K out where K: "1 \<le> K"
    and run: "run_quantum_simulation noise_level purification_enabled rnd = Inr out"
    and st: "steps out = cur_steps (state_after noise_level purification_enabled rnd K)"
    and rf: "result_fidelity (results out) =
           (case fidelity (last (steps out)) of None \<Rightarrow> 0 | Some f \<Rightarrow> f)"
    by (rule run_fields[of noise_level purification_enabled rnd]) blast
  obtain k where k: "K = Suc k" using K by (cases K) auto
  let ?st = "state_after noise_level purification_enabled rnd k"
  let ?new = "new_steps noise_level purification_enabled rnd ?st"
  have last: "last (steps out) = last ?new"
    by (simp add: st k last_cur_steps_state_after)
  have ne: "steps out \<noteq> []"
    by (simp add: st k cur_steps_state_after_Suc new_steps_nonempty)
  have "0 \<le> rnd (Suc (cur_draw ?st))"
    using assms by (simp add: valid_draws_def)
  then obtain f where f: "fidelity (last ?new) = Some f" "0.5 \<le> f" "f \<le> 1"
    using new_steps_last_range[of rnd ?st noise_level purification_enabled] by blast
  have "status (last ?new) = Success \<or> status (last ?new) = Retry"
    using new_steps_last[of noise_level purification_enabled rnd ?st]
    by (auto split: if_splits)
  then show ?thesis
    using run ne f by (simp add: last rf)
qed

theorem result_fidelity_in_range_witness:
  "valid_draws (const_draws (1/2)) \<and>
   (\<exists>out. run_quantum_simulation 1 True (const_draws (1/2)) = Inr out \<and>
      result_fidelity (results out) = 3/4 \<and>
      0.5 \<le> result_fidelity (results out) \<and> result_fidelity (results out) \<le> 1 \<and>
      fidelity (last (steps out)) = Some (3/4))"
proof -
  from result_fidelity_in_range[OF valid_const_draws_half, of 1 True]
  obtain out where
    out: "run_quantum_simulation 1 True (const_draws (1/2)) = Inr out"
      "0.5 \<le> result_fidelity (results out)" "result_fidelity (results out) \<le> 1"
      "fidelity (last (steps out)) = Some (result_fidelity (results out))"
    by blast
  have "result_fidelity (results out) = 3/4"
    using run_noise_1_purified_summary by (simp add: out(1))
  with out valid_const_draws_half show ?thesis by auto
qed

text \<open>
  Claim C4. In every run with purification enabled and draws from the unit interval,
  whenever the raw fidelity that \<^verbatim>\<open>calculate_fidelity\<close> returns in an attempt is
  below 0.8, the trace holds exactly two \<open>Purifying\<close> steps for that attempt, at
  progress 0.4 and 0.5; the first records the raw fidelity and the second a fidelity
  that is at least the raw one.
\<close>

theorem purification_emits_two_steps:
  assumes "valid_draws rnd"
  shows "\<exists>out. run_quantum_simulation noise_level True rnd = Inr out \<and>
     (\<forall>a. 1 \<le> a \<and> a \<le> attempts (results out) \<and>
          raw_fidelity noise_level True rnd a < 0.8 \<longrightarrow>
        (\<exists>f2. map (\<lambda>s. (progress s, fidelity s))
                 (purifying_steps (steps_of_attempt a (steps out))) =
               [(0.4, Some (raw_fidelity noise_level True rnd a)), (0.5, Some f2)] \<and>
             raw_fidelity noise_level True rnd a \<le> f2))"
proof -
  obtain K out where
    run: "run_quantum_simulation noise_level True rnd = Inr out"
    and st: "steps out = cur_steps (state_after noise_level True rnd K)"
    and att: "attempts (results out) = int K"
    by (rule run_fields[of noise_level True rnd]) blast
  have "\<exists>f2. map (\<lambda>s. (progress s, fidelity s))
                 (purifying_steps (steps_of_attempt a (steps out))) =
               [(0.4, Some (raw_fidelity noise_level True rnd a)), (0.5, Some f2)] \<and>
             raw_fidelity noise_level True rnd a \<le> f2"
    if a: "1 \<le> a \<and> a \<le> attempts (results out) \<and> raw_fidelity noise_level True rnd a < 0.8"
    for a
  proof -
    let ?st = "state_after noise_level True rnd (nat (a - 1))"
    let ?raw = "raw_fidelity noise_level True rnd a"
    let ?f2 = "min (?raw + (0.2 + rnd (Suc (cur_draw ?st)) * 0.1)) 1"
    have att1: "cur_attempt ?st + 1 = a"
      using a by (simp add: cur_attempt_state_after)
    have seg: "steps_of_attempt a (steps out) = new_steps noise_level True rnd ?st"
      using a by (simp add: st att steps_of_attempt_cases)
    have raw: "fst (calculate_fidelity noise_level (cur_attempt ?st + 1) rnd (cur_draw ?st)) = ?raw"
      by (simp add: att1 raw_fidelity_def)
    have list: "map (\<lambda>s. (progress s, fidelity s))
                 (purifying_steps (steps_of_attempt a (steps out))) =
               [(0.4, Some ?raw), (0.5, Some ?f2)]"
      using a by (simp add: seg new_steps_purifying raw threshold_def Let_def)
    have "0 \<le> rnd (Suc (cur_draw ?st))"
      using assms by (simp add: valid_draws_def)
    moreover have "?raw \<le> 1"
      using calculate_fidelity_range(2)[of noise_level a rnd "cur_draw ?st"]
      by (simp add: raw_fidelity_def)
    ultimately have le: "?raw \<le> ?f2" by simp
    show ?thesis
    proof (intro exI conjI)
      show "map (\<lambda>s. (progress s, fidelity s))
                 (purifying_steps (steps_of_attempt a (steps out))) =
               [(0.4, Some ?raw), (0.5, Some ?f2)]"
        by (rule list)
      show "?raw \<le> ?f2" by (rule le)
    qed
  qed
  with run show ?thesis by blast
qed

theorem purification_emits_two_steps_witness:
  "valid_draws (const_draws (1/2)) \<and>
   (\<exists>out. run_quantum_simulation 1 True (const_draws (1/2)) = Inr out \<and>
      1 \<le> attempts (results out) \<and>
      raw_fidelity 1 True (const_draws (1/2)) 1 < 0.8 \<and>
      (\<exists>f2. map (\<lambda>s. (progress s, fidelity s))
                 (purifying_steps (steps_of_attempt 1 (steps out))) =
               [(0.4, Some (1/2)), (0.5, Some f2)] \<and> 1/2 \<le> f2))"
proof -
  from purification_emits_two_steps[OF valid_const_draws_half, of 1] obtain out where
    out: "run_quantum_simulation 1 True (const_draws (1/2)) = Inr out"
      "\<forall>a. 1 \<le> a \<and> a \<le> attempts (results out) \<and>
          raw_fidelity 1 True (const_draws (1/2)) a < 0.8 \<longrightarrow>
        (\<exists>f2. map (\<lambda>s. (progress s, fidelity s))
                 (purifying_steps (steps_of_attempt a (steps out))) =
               [(0.4, Some (raw_fidelity 1 True (const_draws (1/2)) a)), (0.5, Some f2)] \<and>
             raw_fidelity 1 True (const_draws (1/2)) a \<le> f2)"
    by blast
  have att: "attempts (results out) = 3"
    using run_noise_1_purified_summary by (simp add: out(1))
  have raw: "raw_fidelity 1 True (const_draws (1/2)) 1 < 0.8"
    by (simp add: raw_fidelity_noise_1_first)
  from out(2) att raw have "\<exists>f2. map (\<lambda>s. (progress s, fidelity s))
                 (purifying_steps (steps_of_attempt 1 (steps out))) =
               [(0.4, Some (raw_fidelity 1 True (const_draws (1/2)) 1)), (0.5, Some f2)] \<and>
             raw_fidelity 1 True (const_draws (1/2)) 1 \<le> f2"
    by simp
  then have "\<exists>f2. map (\<lambda>s. (progress s, fidelity s))
                 (purifying_steps (steps_of_attempt 1 (steps out))) =
               [(0.4, Some (1/2)), (0.5, Some f2)] \<and> 1/2 \<le> f2"
    by (simp add: raw_fidelity_noise_1_first)
  with out(1) att raw valid_const_draws_half show ?thesis by auto
qed

text \<open>
  Claim C5 as stated fails. With noise level 1, purification enabled and every draw
  equal to one half, each attempt purifies from 0.5 to 0.75, stays below the threshold
  and retries; the three attempts emit 7 steps each, 21 steps in all.
\<close>

theorem trace_bound_18_counterexample:
  "valid_draws (const_draws (1/2)) \<and>
   \<not> isl (run_quantum_simulation 1 True (const_draws (1/2))) \<and>
   length (steps (projr (run_quantum_simulation 1 True (const_draws (1/2))))) = 21 \<and>
   \<not> length (steps (projr (run_quantum_simulation 1 True (const_draws (1/2))))) \<le> 18"
  using map_sum_Inr_D[OF run_noise_1_purified_summary] valid_const_draws_half by simp

text \<open>
  Claim C5, amended. The claim bounds the trace by 18 steps, counting 6 steps per
  attempt. An attempt that purifies emits 7 steps, so what holds for every input and
  every stream of draws is: at most 3 attempts, at most 7 steps for each attempt, and
  at most 21 steps in the trace.
\<close>

theorem trace_has_at_most_21_steps:
  "\<exists>out. run_quantum_simulation noise_level purification_enabled rnd = Inr out \<and>
     attempts (results out) \<le> 3 \<and>
     (\<forall>a. length (steps_of_attempt a (steps out)) \<le> 7) \<and>
     length (steps out) \<le> 21"
proof -
  obtain K out where K: "K \<le> 3"
    and run: "run_quantum_simulation noise_level purification_enabled rnd = Inr out"
    and st: "steps out = cur_steps (state_after noise_level purification_enabled rnd K)"
    and att: "attempts (results out) = int K"
    by (rule run_fields[of noise_level purification_enabled rnd]) blast
  have "length (steps out) \<le> 7 * K"
    by (simp add: st state_after_length)
  then have total: "length (steps out) \<le> 21" using K by simp
  have each: "length (steps_of_attempt a (steps out)) \<le> 7" for a
    by (simp add: st steps_of_attempt_cases new_steps_length)
  from run att K each total show ?thesis by simp
qed

theorem trace_has_at_most_21_steps_witness:
  "\<exists>out. run_quantum_simulation 1 True (const_draws (1/2)) = Inr out \<and>
     attempts (results out) = 3 \<and> length (steps out) = 21 \<and>
     length (steps_of_attempt 1 (steps out)) \<le> 7"
proof -
  from trace_has_at_most_21_steps[of 1 True "const_draws (1/2)"] obtain out where
    out: "run_quantum_simulation 1 True (const_draws (1/2)) = Inr out"
      "\<forall>a. length (steps_of_attempt a (steps out)) \<le> 7"
    by blast
  have "attempts (results out) = 3 \<and> length (steps out) = 21"
    using run_noise_1_purified_summary by (simp add: out(1))
  with out show ?thesis by blast
qed

text \<open>
  Claim C6. For noise level 1 without purification and draws from the unit interval,
  the raw fidelity of each of the attempts 1, 2 and 3 is the lower clamp 0.5, which is
  below the threshold 0.8, and the run returns with \<open>attempts = 3\<close> and
  \<open>success = False\<close>.
\<close>

theorem noise_one_without_purification_fails:
  assumes "valid_draws rnd"
  shows "\<exists>out. run_quantum_simulation 1 False rnd = Inr out \<and>
     attempts (results out) = 3 \<and> \<not> success (results out) \<and>
     (\<forall>a. 1 \<le> a \<and> a \<le> 3 \<longrightarrow>
        raw_fidelity 1 False rnd a = 0.5 \<and> raw_fidelity 1 False rnd a < 0.8)"
proof -
  obtain K out where K: "K \<le> 3"
    and stop: "cur_success (state_after 1 False rnd K) \<or> K = 3"
    and run: "run_quantum_simulation 1 False rnd = Inr out"
    and succ: "success (results out) = cur_success (state_after 1 False rnd K)"
    and att: "attempts (results out) = int K"
    by (rule run_fields[of 1 False rnd]) blast
  have no: "\<not> cur_success (state_after 1 False rnd K)"
    using assms K by (rule noise_one_no_success)
  with stop have "K = 3" by blast
  moreover have "raw_fidelity 1 False rnd a = 0.5 \<and> raw_fidelity 1 False rnd a < 0.8"
    if "1 \<le> a \<and> a \<le> 3" for a
  proof -
    have "rnd (cur_draw (state_after 1 False rnd (nat (a - 1)))) < 1"
      using assms by (simp add: valid_draws_def)
    then have "raw_fidelity 1 False rnd a = 0.5"
      unfolding raw_fidelity_def using that by (intro calculate_fidelity_noise_one) auto
    then show ?thesis by simp
  qed
  ultimately show ?thesis using run succ att no by simp
qed

theorem noise_one_without_purification_fails_witness:
  "valid_draws (const_draws (1/2)) \<and>
   (\<exists>out. run_quantum_simulation 1 False (const_draws (1/2)) = Inr out \<and>
      attempts (results out) = 3 \<and> \<not> success (results out) \<and>
      length (steps out) = 15 \<and>
      raw_fidelity 1 False (const_draws (1/2)) 2 = 0.5)"
proof -
  from noise_one_without_purification_fails[OF valid_const_draws_half] obtain out where
    out: "run_quantum_simulation 1 False (const_draws (1/2)) = Inr out"
      "attempts (results out) = 3" "\<not> success (results out)"
      "\<forall>a. 1 \<le> a \<and> a \<le> 3 \<longrightarrow>
        raw_fidelity 1 False (const_draws (1/2)) a = 0.5 \<and>
        raw_fidelity 1 False (const_draws (1/2)) a < 0.8"
    by blast
  have "length (steps out) = 15"
    using run_noise_1_plain_summary by (simp add: out(1))
  moreover have "raw_fidelity 1 False (const_draws (1/2)) 2 = 0.5"
    using out(4) by simp
  ultimately show ?thesis using out(1,2,3) valid_const_draws_half by blast
qed

text \<open>
  Claim C7. For every input and every stream of draws, the \<open>latency\<close> of the result
  equals \<open>attempts * (1 + noiseLevel)\<close>, so it is determined by the number of
  attempts and the noise level.
\<close>

theorem latency_formula:
  "\<exists>out. run_quantum_simulation noise_level purification_enabled rnd = Inr out \<and>
     latency (results out) = real_of_int (attempts (results out)) * (1 + noise_level)"
proof -
  obtain K out where
    "run_quantum_simulation noise_level purification_enabled rnd = Inr out"
    "attempts (results out) = int K"
    "latency (results out) = real_of_int (int K) * (1 + noise_level)"
    by (rule run_fields[of noise_level purification_enabled rnd]) blast
  then show ?thesis by simp
qed

theorem latency_formula_witness:
  "\<exists>out. run_quantum_simulation 1 True (const_draws (1/2)) = Inr out \<and>
     attempts (results out) = 3 \<and> latency (results out) = 6"
proof -
  from latency_formula[of 1 True "const_draws (1/2)"]
  obtain out where
    out: "run_quantum_simulation 1 True (const_draws (1/2)) = Inr out"
      "latency (results out) = real_of_int (attempts (results out)) * (1 + 1)"
    by blast
  have "attempts (results out) = 3"
    using run_noise_1_purified_summary by (simp add: out(1))
  with out show ?thesis by auto
qed

text \<open>
  Claim C8 as stated fails. In the same run the fourth and fifth step of attempt 1 are
  \<open>Purifying\<close> steps that carry a fidelity field, and they come before the
  \<open>Measuring\<close> step of that attempt.
\<close>

theorem fidelity_before_measuring_counterexample:
  "\<not> isl (run_quantum_simulation 1 True (const_draws (1/2))) \<and>
   map status (take 6 (steps (projr (run_quantum_simulation 1 True (const_draws (1/2)))))) =
     [Initializing, Initializing, Sending, Purifying, Purifying, Measuring] \<and>
   map attempt (take 6 (steps (projr (run_quantum_simulation 1 True (const_draws (1/2)))))) =
     [1, 1, 1, 1, 1, 1] \<and>
   map fidelity (take 6 (steps (projr (run_quantum_simulation 1 True (const_draws (1/2)))))) =
     [None, None, None, Some (1/2), Some (3/4), Some (3/4)]"
proof -
  let ?xs = "take 6 (steps (projr (run_quantum_simulation 1 True (const_draws (1/2)))))"
  from map_sum_Inr_D[OF run_noise_1_purified_first_steps]
  have r: "\<not> isl (run_quantum_simulation 1 True (const_draws (1/2)))"
    and m: "map (\<lambda>s. (status s, attempt s, fidelity s)) ?xs =
      [(Initializing, 1, None), (Initializing, 1, None), (Sending, 1, None),
        (Purifying, 1, Some (1/2)), (Purifying, 1, Some (3/4)), (Measuring, 1, Some (3/4))]"
    by simp_all
  have "map status ?xs = map fst (map (\<lambda>s. (status s, attempt s, fidelity s)) ?xs)"
    by simp
  then have s: "map status ?xs = [Initializing, Initializing, Sending, Purifying, Purifying, Measuring]"
    unfolding m by simp
  have "map attempt ?xs = map (fst \<circ> snd) (map (\<lambda>s. (status s, attempt s, fidelity s)) ?xs)"
    by simp
  then have a: "map attempt ?xs = [1, 1, 1, 1, 1, 1]"
    unfolding m by simp
  have "map fidelity ?xs = map (snd \<circ> snd) (map (\<lambda>s. (status s, attempt s, fidelity s)) ?xs)"
    by simp
  then have f: "map fidelity ?xs = [None, None, None, Some (1/2), Some (3/4), Some (3/4)]"
    unfolding m by simp
  from r s a f show ?thesis by blast
qed

text \<open>
  Claim C8, amended. The claim lets the fidelity field start at the measuring step, but
  the two purifying steps, which come before it, carry the field too. What holds in
  every trace: a step carries a fidelity field exactly when its status is
  \<open>Purifying\<close>, \<open>Measuring\<close>, \<open>Success\<close> or \<open>Retry\<close>. The steps of an executed
  attempt are, in this order, two \<open>Initializing\<close> steps and a \<open>Sending\<close> step, then
  two \<open>Purifying\<close> steps exactly when purification is enabled and the raw fidelity of
  the attempt is below 0.8, then the \<open>Measuring\<close> step and a final \<open>Success\<close> or
  \<open>Retry\<close> step. The first three have no fidelity field and every later step has
  one, so the field is present from the first purifying step on when the attempt
  purifies, and from the measuring step on otherwise.
\<close>

theorem fidelity_field_by_status:
  "\<exists>out. run_quantum_simulation noise_level purification_enabled rnd = Inr out \<and>
     (\<forall>s \<in> set (steps out).
        (fidelity s \<noteq> None) = (status s \<in> {Purifying, Measuring, Success, Retry})) \<and>
     (\<forall>a. 1 \<le> a \<and> a \<le> attempts (results out) \<longrightarrow>
        (\<exists>final. (final = Success \<or> final = Retry) \<and>
           map status (steps_of_attempt a (steps out)) =
             [Initializing, Initializing, Sending] @
             (if purification_enabled \<and>
                 raw_fidelity noise_level purification_enabled rnd a < 0.8
              then [Purifying, Purifying] else []) @
             [Measuring, final]) \<and>
        map (\<lambda>s. fidelity s = None) (steps_of_attempt a (steps out)) =
          [True, True, True] @
          replicate (length (steps_of_attempt a (steps out)) - 3) False)"
proof -
  obtain K out where
    run: "run_quantum_simulation noise_level purification_enabled rnd = Inr out"
    and st: "steps out = cur_steps (state_after noise_level purification_enabled rnd K)"
    and att: "attempts (results out) = int K"
    by (rule run_fields[of noise_level purification_enabled rnd]) blast
  have field: "\<forall>s \<in> set (steps out).
        (fidelity s \<noteq> None) = (status s \<in> {Purifying, Measuring, Success, Retry})"
    using state_after_fidelity_field[of _ noise_level purification_enabled rnd K]
    by (simp add: st)
  have order: "(\<exists>final. (final = Success \<or> final = Retry) \<and>
           map status (steps_of_attempt a (steps out)) =
             [Initializing, Initializing, Sending] @
             (if purification_enabled \<and>
                 raw_fidelity noise_level purification_enabled rnd a < 0.8
              then [Purifying, Purifying] else []) @
             [Measuring, final]) \<and>
        map (\<lambda>s. fidelity s = None) (steps_of_attempt a (steps out)) =
          [True, True, True] @
          replicate (length (steps_of_attempt a (steps out)) - 3) False"
    if a: "1 \<le> a \<and> a \<le> attempts (results out)" for a
  proof -
    let ?st = "state_after noise_level purification_enabled rnd (nat (a - 1))"
    let ?new = "new_steps noise_level purification_enabled rnd ?st"
    have seg: "steps_of_attempt a (steps out) = ?new"
      using a by (simp add: st att steps_of_attempt_cases)
    have att1: "cur_attempt ?st + 1 = a"
      using a by (simp add: cur_attempt_state_after)
    have raw: "fst (calculate_fidelity noise_level (cur_attempt ?st + 1) rnd (cur_draw ?st)) =
        raw_fidelity noise_level purification_enabled rnd a"
      by (simp add: att1 raw_fidelity_def)
    have statuses: "map status (steps_of_attempt a (steps out)) =
             [Initializing, Initializing, Sending] @
             (if purification_enabled \<and>
                 raw_fidelity noise_level purification_enabled rnd a < 0.8
              then [Purifying, Purifying] else []) @
             [Measuring, status (last ?new)]"
      unfolding seg
      using new_steps_status_order[of noise_level purification_enabled rnd ?st]
      by (simp only: raw threshold_def)
    have final: "status (last ?new) = Success \<or> status (last ?new) = Retry"
      by (rule new_steps_last_status)
    have fields: "map (\<lambda>s. fidelity s = None) (steps_of_attempt a (steps out)) =
          [True, True, True] @
          replicate (length (steps_of_attempt a (steps out)) - 3) False"
      unfolding seg by (rule new_steps_field_order)
    from final statuses fields show ?thesis by blast
  qed
  from run field order show ?thesis by blast
qed

theorem fidelity_field_by_status_witness:
  "\<exists>out. run_quantum_simulation 1 True (const_draws (1/2)) = Inr out \<and>
     1 \<le> attempts (results out) \<and>
     map status (steps_of_attempt 1 (steps out)) =
       [Initializing, Initializing, Sending, Purifying, Purifying, Measuring, Retry] \<and>
     map (\<lambda>s. fidelity s = None) (steps_of_attempt 1 (steps out)) =
       [True, True, True, False, False, False, False] \<and>
     last (steps out) \<in> set (steps out) \<and>
     (fidelity (last (steps out)) \<noteq> None) =
       (status (last (steps out)) \<in> {Purifying, Measuring, Success, Retry})"
proof -
  from fidelity_field_by_status[of 1 True "const_draws (1/2)"] obtain out where
    out: "run_quantum_simulation 1 True (const_draws (1/2)) = Inr out"
      "\<forall>s \<in> set (steps out).
        (fidelity s \<noteq> None) = (status s \<in> {Purifying, Measuring, Success, Retry})"
      "\<forall>a. 1 \<le> a \<and> a \<le> attempts (results out) \<longrightarrow>
        (\<exists>final. (final = Success \<or> final = Retry) \<and>
           map status (steps_of_attempt a (steps out)) =
             [Initializing, Initializing, Sending] @
             (if True \<and> raw_fidelity 1 True (const_draws (1/2)) a < 0.8
              then [Purifying, Purifying] else []) @
             [Measuring, final]) \<and>
        map (\<lambda>s. fidelity s = None) (steps_of_attempt a (steps out)) =
          [True, True, True] @
          replicate (length (steps_of_attempt a (steps out)) - 3) False"
    by blast
  have ev: "attempts (results out) = 3 \<and> length (steps out) = 21"
    using run_noise_1_purified_summary by (simp add: out(1))
  then have "steps out \<noteq> []" by auto
  then have mem: "last (steps out) \<in> set (steps out)" by simp
  have att: "1 \<le> attempts (results out)" using ev by simp
  have stat: "map status (steps_of_attempt 1 (steps out)) =
       [Initializing, Initializing, Sending, Purifying, Purifying, Measuring, Retry]"
    using run_noise_1_purified_attempt_1 by (simp add: out(1))
  from out(3) att ev have "map (\<lambda>s. fidelity s = None) (steps_of_attempt 1 (steps out)) =
          [True, True, True] @
          replicate (length (steps_of_attempt 1 (steps out)) - 3) False"
    by simp
  moreover have "length (steps_of_attempt 1 (steps out)) = 7"
    using arg_cong[OF stat, of length] by simp
  ultimately have none: "map (\<lambda>s. fidelity s = None) (steps_of_attempt 1 (steps out)) =
       [True, True, True, False, False, False, False]"
    by (simp add: numeral_eq_Suc)
  from out(2) mem have field: "(fidelity (last (steps out)) \<noteq> None) =
       (status (last (steps out)) \<in> {Purifying, Measuring, Success, Retry})"
    by (rule bspec)
  show ?thesis
    by (rule exI[of _ out]) (intro conjI out(1) att stat none mem field)
qed

text \<open>
  Claim C9 as stated fails. The claim speaks of every input value of the noise level.
  At the integer \<open>10 ^ 309\<close>, a numeric value outside the interval from 0 to 1,
  the subtraction in \<^verbatim>\<open>calculate_fidelity\<close> raises OverflowError, and at a
  string or \<^verbatim>\<open>None\<close> it raises TypeError; the call returns no result.
\<close>

theorem run_raises_on_non_float_counterexample:
  "run_quantum_simulation_dyn (PyInt (10 ^ 309)) False (const_draws (1/2)) = Inl OverflowError \<and>
   run_quantum_simulation_dyn (PyStr ''0.5'') False (const_draws (1/2)) = Inl TypeError \<and>
   run_quantum_simulation_dyn PyNone False (const_draws (1/2)) = Inl TypeError"
  by (simp add: run_quantum_simulation_dyn_def float_operand_def)

text \<open>
  Claim C9, amended. For every float value of the noise level, also outside the interval
  from 0 to 1, every purification setting and every stream of draws, the run returns a
  result and raises nothing. The loop body is executed at least once from the initial
  state, so the list of steps is not empty when its last element is read.
\<close>

theorem run_never_raises_on_floats:
  "(\<exists>out. run_quantum_simulation_dyn (PyFloat x) purification_enabled rnd = Inr out) \<and>
   run_quantum_simulation_dyn (PyFloat x) purification_enabled rnd =
     run_quantum_simulation x purification_enabled rnd \<and>
   while_loop x purification_enabled rnd init_state =
     while_loop x purification_enabled rnd (loop_body x purification_enabled rnd init_state) \<and>
   cur_steps (while_loop x purification_enabled rnd init_state) \<noteq> []"
proof -
  obtain K out where K: "1 \<le> K"
    and wl: "while_loop x purification_enabled rnd init_state =
       state_after x purification_enabled rnd K"
    and run: "run_quantum_simulation x purification_enabled rnd = Inr out"
    by (rule run_fields[of x purification_enabled rnd]) blast
  obtain k where k: "K = Suc k" using K by (cases K) auto
  have dyn: "run_quantum_simulation_dyn (PyFloat x) purification_enabled rnd =
     run_quantum_simulation x purification_enabled rnd"
    by (simp add: run_quantum_simulation_dyn_def float_operand_def)
  have ne: "cur_steps (while_loop x purification_enabled rnd init_state) \<noteq> []"
    by (simp add: wl k cur_steps_state_after_Suc new_steps_nonempty)
  have once: "while_loop x purification_enabled rnd init_state =
     while_loop x purification_enabled rnd (loop_body x purification_enabled rnd init_state)"
    by (subst while_loop.simps) (simp add: init_state_def max_attempts_def)
  from run dyn ne once show ?thesis by simp
qed

theorem run_never_raises_on_floats_witness:
  "\<exists>out. run_quantum_simulation_dyn (PyFloat 5) True (const_draws (1/2)) = Inr out \<and>
     attempts (results out) = 3 \<and> \<not> success (results out)"
proof -
  from run_never_raises_on_floats[of 5 True "const_draws (1/2)"] obtain out where
    out: "run_quantum_simulation_dyn (PyFloat 5) True (const_draws (1/2)) = Inr out"
      "run_quantum_simulation_dyn (PyFloat 5) True (const_draws (1/2)) =
         run_quantum_simulation 5 True (const_draws (1/2))"
    by blast
  then have "run_quantum_simulation 5 True (const_draws (1/2)) = Inr out" by simp
  then have "attempts (results out) = 3 \<and> \<not> success (results out)"
    using run_noise_5_purified_summary by simp
  with out(1) show ?thesis by blast
qed

text \<open>
  Claim C10. In a run, the steps of an attempt contain a \<open>Purifying\<close> step only when
  purification is enabled and the raw fidelity of that attempt is below 0.8. So a run
  without purification has no \<open>Purifying\<close> step at all, and an attempt whose raw
  fidelity is at least 0.8 has none.
\<close>

theorem purifying_only_when_enabled_and_low:
  "\<exists>out. run_quantum_simulation noise_level purification_enabled rnd = Inr out \<and>
     (\<forall>a. purifying_steps (steps_of_attempt a (steps out)) \<noteq> [] \<longrightarrow>
        purification_enabled \<and> 1 \<le> a \<and> a \<le> attempts (results out) \<and>
        raw_fidelity noise_level purification_enabled rnd a < 0.8) \<and>
     (\<not> purification_enabled \<longrightarrow> purifying_steps (steps out) = []) \<and>
     (\<forall>a. 1 \<le> a \<and> a \<le> attempts (results out) \<and>
          0.8 \<le> raw_fidelity noise_level purification_enabled rnd a \<longrightarrow>
        purifying_steps (steps_of_attempt a (steps out)) = [])"
proof -
  obtain K out where
    run: "run_quantum_simulation noise_level purification_enabled rnd = Inr out"
    and st: "steps out = cur_steps (state_after noise_level purification_enabled rnd K)"
    and att: "attempts (results out) = int K"
    by (rule run_fields[of noise_level purification_enabled rnd]) blast
  have only: "purification_enabled \<and> 1 \<le> a \<and> a \<le> attempts (results out) \<and>
        raw_fidelity noise_level purification_enabled rnd a < 0.8"
    if ne: "purifying_steps (steps_of_attempt a (steps out)) \<noteq> []" for a
  proof -
    let ?st = "state_after noise_level purification_enabled rnd (nat (a - 1))"
    have range: "1 \<le> a \<and> a \<le> int K"
      using ne by (auto simp add: st steps_of_attempt_cases purifying_steps_def split: if_splits)
    then have seg: "steps_of_attempt a (steps out) =
        new_steps noise_level purification_enabled rnd ?st"
      by (simp add: st steps_of_attempt_cases)
    have att1: "cur_attempt ?st + 1 = a"
      using range by (simp add: cur_attempt_state_after)
    have "map (\<lambda>s. (progress s, fidelity s))
            (purifying_steps (new_steps noise_level purification_enabled rnd ?st)) \<noteq> []"
      using ne by (simp add: seg)
    then have "purification_enabled \<and>
        fst (calculate_fidelity noise_level a rnd (cur_draw ?st)) < threshold"
      by (simp add: new_steps_purifying att1 Let_def split: if_splits)
    then show ?thesis
      using range by (auto simp add: att raw_fidelity_def threshold_def)
  qed
  have none: "purifying_steps (steps out) = []" if "\<not> purification_enabled"
    using that by (simp add: st state_after_no_purifying)
  have high: "purifying_steps (steps_of_attempt a (steps out)) = []"
    if "1 \<le> a \<and> a \<le> attempts (results out) \<and>
          0.8 \<le> raw_fidelity noise_level purification_enabled rnd a" for a
    using that only[of a] by fastforce
  from run only none high show ?thesis by blast
qed

theorem purifying_only_when_enabled_and_low_witness:
  "(\<exists>out. run_quantum_simulation 1 True (const_draws (1/2)) = Inr out \<and>
      purifying_steps (steps_of_attempt 1 (steps out)) \<noteq> [] \<and>
      1 \<le> attempts (results out) \<and>
      raw_fidelity 1 True (const_draws (1/2)) 1 < 0.8) \<and>
   (\<exists>out. run_quantum_simulation 1 False (const_draws (1/2)) = Inr out \<and>
      purifying_steps (steps out) = [])"
proof
  from purifying_only_when_enabled_and_low[of 1 True "const_draws (1/2)"] obtain out where
    out: "run_quantum_simulation 1 True (const_draws (1/2)) = Inr out"
      "\<forall>a. purifying_steps (steps_of_attempt a (steps out)) \<noteq> [] \<longrightarrow>
        True \<and> 1 \<le> a \<and> a \<le> attempts (results out) \<and>
        raw_fidelity 1 True (const_draws (1/2)) a < 0.8"
    by blast
  have "length (purifying_steps (steps_of_attempt 1 (steps out))) = 2"
    using run_noise_1_purified_count by (simp add: out(1))
  then have ne: "purifying_steps (steps_of_attempt 1 (steps out)) \<noteq> []" by auto
  with out(2) have "1 \<le> attempts (results out) \<and>
        raw_fidelity 1 True (const_draws (1/2)) 1 < 0.8"
    by blast
  with out(1) ne show "\<exists>out. run_quantum_simulation 1 True (const_draws (1/2)) = Inr out \<and>
      purifying_steps (steps_of_attempt 1 (steps out)) \<noteq> [] \<and>
      1 \<le> attempts (results out) \<and>
      raw_fidelity 1 True (const_draws (1/2)) 1 < 0.8"
    by blast
next
  from purifying_only_when_enabled_and_low[of 1 False "const_draws (1/2)"]
  show "\<exists>out. run_quantum_simulation 1 False (const_draws (1/2)) = Inr out \<and>
      purifying_steps (steps out) = []"
    by blast
qed

end
